theory Spec2Isabelle
  imports Complex_Main "HOL-Library.AList"
begin

section \<open>Python values shared by the production back end\<close>

text \<open>
  Numbers are Python floats (or ints decoded from JSON). A finite float is the real number
  it denotes, and comparisons of floats are exact. Rounding is kept where a statement
  below depends on it: the running sum of \<open>_calculate_total_production\<close> uses a
  floating-point addition that is a parameter (\<open>float_add\<close>). The other sums and products
  of the back end (resource usage, utilization, the verifier's tolerances) are taken
  exact. The demand bounds, which reach the bounds of the variables unchanged, may also
  be infinite or NaN (\<open>pyfloat\<close>); the other numbers are taken finite.

  A dictionary that the code builds by assignment (\<open>d[k] = v\<close>) is an association list
  updated with \<open>AList.update\<close>: a new key is appended, an existing key keeps its position
  and takes the new value, which is the insertion order Python iterates in.
\<close>

datatype error =
    KeyError string
  | TypeError string
  | ValueError string
  | GurobiError string

text \<open>\<open>str(e)\<close> of an exception: a \<open>KeyError\<close> prints the repr of its key.\<close>

fun str_error :: "error \<Rightarrow> string" where
  "str_error (KeyError k) = [CHR 0x27] @ k @ [CHR 0x27]"
| "str_error (TypeError m) = m"
| "str_error (ValueError m) = m"
| "str_error (GurobiError m) = m"

text \<open>
  The messages of the \<open>TypeError\<close>s the back end can raise, all on a JSON \<open>null\<close>:
  \<open>None < 0\<close>, \<open>None - epsilon\<close> and \<open>None + epsilon\<close>.
\<close>

definition none_less_int :: string where
  "none_less_int =
     [CHR 0x27] @ ''<'' @ [CHR 0x27] @
     '' not supported between instances of '' @
     [CHR 0x27] @ ''NoneType'' @ [CHR 0x27] @ '' and '' @ [CHR 0x27] @ ''int'' @ [CHR 0x27]"

definition none_minus_float :: string where
  "none_minus_float =
     ''unsupported operand type(s) for -: '' @
     [CHR 0x27] @ ''NoneType'' @ [CHR 0x27] @ '' and '' @ [CHR 0x27] @ ''float'' @ [CHR 0x27]"

definition none_plus_float :: string where
  "none_plus_float =
     ''unsupported operand type(s) for +: '' @
     [CHR 0x27] @ ''NoneType'' @ [CHR 0x27] @ '' and '' @ [CHR 0x27] @ ''float'' @ [CHR 0x27]"

text \<open>\<open>d[key]\<close> on a dictionary decoded from JSON: a missing key raises \<open>KeyError\<close>.\<close>

definition item :: "string \<Rightarrow> 'a option \<Rightarrow> error + 'a" where
  "item key v = (case v of None \<Rightarrow> Inl (KeyError key) | Some a \<Rightarrow> Inr a)"

text \<open>
  A key whose value the code tests with \<open>is not None\<close>: it can be missing, hold JSON
  \<open>null\<close>, or hold a number.
\<close>

datatype 'a nullable = Absent | Null | Val 'a

text \<open>
  A Python float as \<open>json.loads\<close> can produce it: a finite value, \<open>Infinity\<close>,
  \<open>-Infinity\<close> or \<open>NaN\<close>. Every comparison with NaN is false. \<open>max(a, b)\<close> keeps its
  first argument unless the second is greater.
\<close>

datatype pyfloat = Finite real | PosInf | NegInf | NaN

fun float_lt :: "pyfloat \<Rightarrow> pyfloat \<Rightarrow> bool" where
  "float_lt (Finite a) (Finite b) = (a < b)"
| "float_lt (Finite a) PosInf = True"
| "float_lt NegInf (Finite b) = True"
| "float_lt NegInf PosInf = True"
| "float_lt a b = False"

definition float_gt :: "pyfloat \<Rightarrow> pyfloat \<Rightarrow> bool" where
  "float_gt a b = float_lt b a"

definition float_le :: "pyfloat \<Rightarrow> pyfloat \<Rightarrow> bool" where
  "float_le a b = (float_lt a b \<or> (a = b \<and> a \<noteq> NaN))"

definition py_max :: "pyfloat \<Rightarrow> pyfloat \<Rightarrow> pyfloat" where
  "py_max a b = (if float_gt b a then b else a)"

text \<open>\<open>x + d\<close> for a finite \<open>d\<close>: the infinities and NaN absorb it.\<close>

fun float_shift :: "pyfloat \<Rightarrow> real \<Rightarrow> pyfloat" where
  "float_shift (Finite a) d = Finite (a + d)"
| "float_shift a d = a"



text \<open>A dict comprehension \<open>{k: v for ...}\<close> over a list of pairs.\<close>

definition py_dict :: "('k \<times> 'v) list \<Rightarrow> ('k \<times> 'v) list" where
  "py_dict kvs = fold (\<lambda>(k, v) d. AList.update k v d) kvs []"

text \<open>
  \<open>s.add(x)\<close> on a set, kept as a duplicate-free list in insertion order. Python leaves
  the iteration order of a set of strings unspecified; only the order of the messages of
  one loop of the validator depends on it.
\<close>

definition set_add :: "'a \<Rightarrow> 'a list \<Rightarrow> 'a list" where
  "set_add a s = (if a \<in> set s then s else s @ [a])"

text \<open>Running a fallible step over a list, stopping at the first exception.\<close>

fun traverse :: "('a \<Rightarrow> error + 'b) \<Rightarrow> 'a list \<Rightarrow> error + 'b list" where
  "traverse f [] = Inr []"
| "traverse f (a # as) =
     (case f a of
        Inl e \<Rightarrow> Inl e
      | Inr b \<Rightarrow> (case traverse f as of Inl e \<Rightarrow> Inl e | Inr bs \<Rightarrow> Inr (b # bs)))"

section \<open>Request payload (api/serializers/production.py, as the core reads it)\<close>

record product =
  p_name :: "string option"
  profit_per_unit :: "real option"
  cost_per_unit :: "real option"

record resource =
  r_name :: "string option"
  available_capacity :: "real option"

record usage =
  product_name :: "string option"
  resource_name :: "string option"
  usage_per_unit :: "real option"

record demand =
  d_product_name :: "string option"
  min_demand :: "pyfloat nullable"
  max_demand :: "pyfloat nullable"

record totals =
  min_total :: "real nullable"
  max_total :: "real nullable"

text \<open>
  The decoded JSON body. A key that is missing is \<open>None\<close>; lists hold objects and the
  numeric keys hold numbers. \<open>total_constraints\<close> is only ever read as
  \<open>'total_constraints' in data and data['total_constraints']\<close>, so a missing key and a
  \<open>null\<close> are both \<open>None\<close> here; an empty dictionary is falsy (\<open>truthy\<close> below).
\<close>

record request =
  objective :: "string option"
  products :: "product list option"
  resources :: "resource list option"
  resource_usage :: "usage list option"
  demand_constraints :: "demand list option"
  total_constraints :: "totals option"

definition truthy :: "totals \<Rightarrow> bool" where
  "truthy tc = (min_total tc \<noteq> Absent \<or> max_total tc \<noteq> Absent)"

section \<open>core/validation.py: validate_optimization_input\<close>

text \<open>
  Each constructor is one f-string template of the validator with the values it
  interpolates; the rendering of floats into text is not modelled.
\<close>

datatype message =
    MissingRequiredField string
  | BadObjective
  | ProductNoName
  | ProductMissingProfit string
  | ProductNegativeProfit string real
  | ProductMissingCost string
  | ProductNegativeCost string real
  | ResourceNoName
  | ResourceMissingCapacity string
  | ResourceNegativeCapacity string real
  | UsageNoProduct
  | UsageUnknownProduct string
  | UsageNoResource
  | UsageUnknownResource string
  | UsageMissingAmount string string
  | UsageNegativeAmount string string real
  | ProductNoUsage string
  | DemandNoProduct
  | DemandUnknownProduct string
  | DemandNegativeMin string pyfloat
  | DemandNegativeMax string pyfloat
  | DemandMinAboveMax string pyfloat pyfloat
  | TotalNegativeMin real
  | TotalNegativeMax real
  | TotalMinAboveMax real real

definition missing_fields :: "request \<Rightarrow> message list" where
  "missing_fields data =
     (if objective data = None then [MissingRequiredField ''objective''] else []) @
     (if products data = None then [MissingRequiredField ''products''] else []) @
     (if resources data = None then [MissingRequiredField ''resources''] else []) @
     (if resource_usage data = None then [MissingRequiredField ''resource_usage''] else [])"

definition check_objective :: "string \<Rightarrow> message list" where
  "check_objective obj =
     (if obj \<noteq> ''maximize_profit'' \<and> obj \<noteq> ''minimize_cost'' then [BadObjective] else [])"

text \<open>The product loop: the messages it appends and the set \<open>product_names\<close> it grows.\<close>

fun validate_products :: "product list \<Rightarrow> string list \<Rightarrow> message list \<times> string list" where
  "validate_products [] names = ([], names)"
| "validate_products (p # ps) names =
     (case p_name p of
        None \<Rightarrow>
          (let (es, names') = validate_products ps names in (ProductNoName # es, names'))
      | Some n \<Rightarrow>
          (let e1 = (case profit_per_unit p of
                       None \<Rightarrow> [ProductMissingProfit n]
                     | Some v \<Rightarrow> if v < 0 then [ProductNegativeProfit n v] else []);
               e2 = (case cost_per_unit p of
                       None \<Rightarrow> [ProductMissingCost n]
                     | Some v \<Rightarrow> if v < 0 then [ProductNegativeCost n v] else []);
               (es, names') = validate_products ps (set_add n names)
           in (e1 @ e2 @ es, names')))"

fun validate_resources :: "resource list \<Rightarrow> string list \<Rightarrow> message list \<times> string list" where
  "validate_resources [] names = ([], names)"
| "validate_resources (r # rs) names =
     (case r_name r of
        None \<Rightarrow>
          (let (es, names') = validate_resources rs names in (ResourceNoName # es, names'))
      | Some n \<Rightarrow>
          (let e1 = (case available_capacity r of
                       None \<Rightarrow> [ResourceMissingCapacity n]
                     | Some v \<Rightarrow> if v < 0 then [ResourceNegativeCapacity n v] else []);
               (es, names') = validate_resources rs (set_add n names)
           in (e1 @ es, names')))"

text \<open>
  One row of \<open>resource_usage\<close>. The message for a missing amount reads the names with
  \<open>ru.get(..., 'unknown')\<close>; the message for a negative amount reads them with
  \<open>ru['product_name']\<close> and \<open>ru['resource_name']\<close>, which raise on a missing key.
\<close>

definition validate_usage_row :: "string list \<Rightarrow> string list \<Rightarrow> usage \<Rightarrow> error + message list" where
  "validate_usage_row product_names resource_names ru =
     (let e1 = (case product_name ru of
                  None \<Rightarrow> [UsageNoProduct]
                | Some n \<Rightarrow> if n \<notin> set product_names then [UsageUnknownProduct n] else []);
          e2 = (case resource_name ru of
                  None \<Rightarrow> [UsageNoResource]
                | Some n \<Rightarrow> if n \<notin> set resource_names then [UsageUnknownResource n] else [])
      in case usage_per_unit ru of
           None \<Rightarrow>
             Inr (e1 @ e2 @
               [UsageMissingAmount
                 (case product_name ru of None \<Rightarrow> ''unknown'' | Some n \<Rightarrow> n)
                 (case resource_name ru of None \<Rightarrow> ''unknown'' | Some n \<Rightarrow> n)])
         | Some v \<Rightarrow>
             if v < 0 then
               (case item ''product_name'' (product_name ru) of
                  Inl e \<Rightarrow> Inl e
                | Inr pn \<Rightarrow>
                    (case item ''resource_name'' (resource_name ru) of
                       Inl e \<Rightarrow> Inl e
                     | Inr rn \<Rightarrow> Inr (e1 @ e2 @ [UsageNegativeAmount pn rn v])))
             else Inr (e1 @ e2))"

definition validate_resource_usage ::
  "string list \<Rightarrow> string list \<Rightarrow> usage list \<Rightarrow> error + message list" where
  "validate_resource_usage product_names resource_names rus =
     (case traverse (validate_usage_row product_names resource_names) rus of
        Inl e \<Rightarrow> Inl e
      | Inr ess \<Rightarrow> Inr (concat ess))"

text \<open>
  \<open>any(ru['product_name'] == product_name for ru in data['resource_usage'])\<close>: the
  generator is consumed row by row and stops at the first match; a row without the key
  raises when it is reached.
\<close>

fun has_resource_usage :: "string \<Rightarrow> usage list \<Rightarrow> error + bool" where
  "has_resource_usage pn [] = Inr False"
| "has_resource_usage pn (ru # rus) =
     (case item ''product_name'' (product_name ru) of
        Inl e \<Rightarrow> Inl e
      | Inr n \<Rightarrow> if n = pn then Inr True else has_resource_usage pn rus)"

definition check_product_usage :: "usage list \<Rightarrow> string \<Rightarrow> error + message list" where
  "check_product_usage rus pn =
     (case has_resource_usage pn rus of
        Inl e \<Rightarrow> Inl e
      | Inr b \<Rightarrow> Inr (if \<not> b then [ProductNoUsage pn] else []))"

definition check_products_have_usage :: "string list \<Rightarrow> usage list \<Rightarrow> error + message list" where
  "check_products_have_usage product_names rus =
     (case traverse (check_product_usage rus) product_names of
        Inl e \<Rightarrow> Inl e
      | Inr ess \<Rightarrow> Inr (concat ess))"

text \<open>
  \<open>'k' in dc and dc['k'] < 0\<close> reads a bound for the first time: a missing key skips
  the test, a \<open>null\<close> makes the comparison raise, a float is compared.
\<close>

definition read_bound :: "pyfloat nullable \<Rightarrow> error + pyfloat option" where
  "read_bound f =
     (case f of
        Absent \<Rightarrow> Inr None
      | Null \<Rightarrow> Inl (TypeError none_less_int)
      | Val v \<Rightarrow> Inr (Some v))"

text \<open>The message for a negative bound interpolates \<open>dc['product_name']\<close>.\<close>

definition negative_message ::
  "(string \<Rightarrow> pyfloat \<Rightarrow> message) \<Rightarrow> demand \<Rightarrow> pyfloat option \<Rightarrow> error + message list" where
  "negative_message mk dc bound =
     (case bound of
        None \<Rightarrow> Inr []
      | Some v \<Rightarrow>
          if float_lt v (Finite 0) then
            (case item ''product_name'' (d_product_name dc) of
               Inl e \<Rightarrow> Inl e
             | Inr n \<Rightarrow> Inr [mk n v])
          else Inr [])"

text \<open>
  One row of \<open>demand_constraints\<close>. When the last test is reached, a bound that is
  present is a float (a \<open>null\<close> has raised before).
\<close>

definition validate_demand_row :: "string list \<Rightarrow> demand \<Rightarrow> error + message list" where
  "validate_demand_row product_names dc =
     (let e1 = (case d_product_name dc of
                  None \<Rightarrow> [DemandNoProduct]
                | Some n \<Rightarrow> if n \<notin> set product_names then [DemandUnknownProduct n] else [])
      in case read_bound (min_demand dc) of
           Inl e \<Rightarrow> Inl e
         | Inr lo \<Rightarrow>
      (case negative_message DemandNegativeMin dc lo of
         Inl e \<Rightarrow> Inl e
       | Inr e2 \<Rightarrow>
      (case read_bound (max_demand dc) of
         Inl e \<Rightarrow> Inl e
       | Inr hi \<Rightarrow>
      (case negative_message DemandNegativeMax dc hi of
         Inl e \<Rightarrow> Inl e
       | Inr e3 \<Rightarrow>
      (case (lo, hi) of
         (Some l, Some h) \<Rightarrow>
           if float_gt l h then
             (case item ''product_name'' (d_product_name dc) of
                Inl e \<Rightarrow> Inl e
              | Inr n \<Rightarrow> Inr (e1 @ e2 @ e3 @ [DemandMinAboveMax n l h]))
           else Inr (e1 @ e2 @ e3)
       | _ \<Rightarrow> Inr (e1 @ e2 @ e3))))))"

definition validate_demand_constraints ::
  "string list \<Rightarrow> demand list option \<Rightarrow> error + message list" where
  "validate_demand_constraints product_names dcs =
     (case dcs of
        None \<Rightarrow> Inr []
      | Some rows \<Rightarrow>
          (case traverse (validate_demand_row product_names) rows of
             Inl e \<Rightarrow> Inl e
           | Inr ess \<Rightarrow> Inr (concat ess)))"

definition validate_total_constraints :: "totals option \<Rightarrow> message list" where
  "validate_total_constraints tco =
     (case tco of
        None \<Rightarrow> []
      | Some tc \<Rightarrow>
          if \<not> truthy tc then []
          else
            (case min_total tc of Val v \<Rightarrow> if v < 0 then [TotalNegativeMin v] else [] | _ \<Rightarrow> []) @
            (case max_total tc of Val v \<Rightarrow> if v < 0 then [TotalNegativeMax v] else [] | _ \<Rightarrow> []) @
            (case (min_total tc, max_total tc) of
               (Val lo, Val hi) \<Rightarrow> if lo > hi then [TotalMinAboveMax lo hi] else []
             | _ \<Rightarrow> []))"

text \<open>
  The validator. \<open>Inl\<close> is an exception that leaves the function; \<open>Inr\<close> is the returned
  pair \<open>(is_valid, error_messages)\<close>. After the early return the four required keys are
  present, so the last case of the match below is never taken.
\<close>

definition validate_optimization_input :: "request \<Rightarrow> error + (bool \<times> message list)" where
  "validate_optimization_input data =
     (let errors = missing_fields data in
      if errors \<noteq> [] then Inr (False, errors)
      else
        (case (objective data, products data, resources data, resource_usage data) of
           (Some obj, Some ps, Some rs, Some rus) \<Rightarrow>
             (let e1 = check_objective obj;
                  (e2, product_names) = validate_products ps [];
                  (e3, resource_names) = validate_resources rs []
              in case validate_resource_usage product_names resource_names rus of
                   Inl e \<Rightarrow> Inl e
                 | Inr e4 \<Rightarrow>
              (case check_products_have_usage product_names rus of
                 Inl e \<Rightarrow> Inl e
               | Inr e5 \<Rightarrow>
              (case validate_demand_constraints product_names (demand_constraints data) of
                 Inl e \<Rightarrow> Inl e
               | Inr e6 \<Rightarrow>
                   (let errors = e1 @ e2 @ e3 @ e4 @ e5 @ e6 @
                          validate_total_constraints (total_constraints data)
                    in Inr (length errors = 0, errors)))))
         | _ \<Rightarrow> Inr (False, errors)))"

section \<open>Result dictionaries\<close>

text \<open>
  A result is a dictionary whose keys depend on the branch that built it; a key that is
  not set is \<open>None\<close>. \<open>infeasible_constraints\<close> holds either a list of names or the
  string \<open>"Unknown"\<close>.
\<close>

record utilization =
  used :: real
  available :: real
  utilization_pct :: real

datatype iis_report = Names "string list" | Unknown

text \<open>One constructor per f-string template of the feasibility verifier.\<close>

datatype warning =
    NotOptimal string
  | SmallQuantity string real
  | UsageDiffers string real real
  | ExceedsCapacity string real real
  | BelowMinDemand string real pyfloat
  | AboveMaxDemand string real pyfloat
  | BelowMinTotal real real
  | AboveMaxTotal real real

record result =
  status :: string
  solver_message :: string
  objective_value :: "real option"
  production_plan :: "(string \<times> real) list option"
  resource_utilization :: "(string \<times> utilization) list option"
  total_production :: "real option"
  feasibility_warnings :: "warning list option"
  infeasible_constraints :: "iis_report option"
  validation_errors :: "message list option"

definition plain_result :: "string \<Rightarrow> string \<Rightarrow> result" where
  "plain_result st msg =
     \<lparr>status = st, solver_message = msg, objective_value = None, production_plan = None,
      resource_utilization = None, total_production = None, feasibility_warnings = None,
      infeasible_constraints = None, validation_errors = None\<rparr>"

section \<open>Dictionaries both the verifier and the optimizers build from the payload\<close>

text \<open>\<open>{r['name']: r for r in data['resources']}\<close>.\<close>

definition resources_dict :: "resource list \<Rightarrow> error + (string \<times> resource) list" where
  "resources_dict rs =
     (case traverse (\<lambda>r. case item ''name'' (r_name r) of
                               Inl e \<Rightarrow> Inl e | Inr n \<Rightarrow> Inr (n, r)) rs of
        Inl e \<Rightarrow> Inl e
      | Inr kvs \<Rightarrow> Inr (py_dict kvs))"

definition products_dict :: "product list \<Rightarrow> error + (string \<times> product) list" where
  "products_dict ps =
     (case traverse (\<lambda>p. case item ''name'' (p_name p) of
                               Inl e \<Rightarrow> Inl e | Inr n \<Rightarrow> Inr (n, p)) ps of
        Inl e \<Rightarrow> Inl e
      | Inr kvs \<Rightarrow> Inr (py_dict kvs))"

text \<open>\<open>{d['product_name']: d for d in data['demand_constraints']}\<close>.\<close>

definition demand_dict :: "demand list \<Rightarrow> error + (string \<times> demand) list" where
  "demand_dict dcs =
     (case traverse (\<lambda>d. case item ''product_name'' (d_product_name d) of
                               Inl e \<Rightarrow> Inl e | Inr n \<Rightarrow> Inr (n, d)) dcs of
        Inl e \<Rightarrow> Inl e
      | Inr kvs \<Rightarrow> Inr (py_dict kvs))"

text \<open>
  The loop that fills \<open>resource_usage[product_name][resource_name]\<close>: a new product gets
  an empty inner dictionary first, then the amount is stored.
\<close>

fun usage_table ::
  "usage list \<Rightarrow> (string \<times> (string \<times> real) list) list \<Rightarrow>
   error + (string \<times> (string \<times> real) list) list" where
  "usage_table [] t = Inr t"
| "usage_table (ru # rus) t =
     (case item ''product_name'' (product_name ru) of
        Inl e \<Rightarrow> Inl e
      | Inr pn \<Rightarrow>
     (case item ''resource_name'' (resource_name ru) of
        Inl e \<Rightarrow> Inl e
      | Inr rn \<Rightarrow>
     (case item ''usage_per_unit'' (usage_per_unit ru) of
        Inl e \<Rightarrow> Inl e
      | Inr u \<Rightarrow>
          (let row = (case map_of t pn of None \<Rightarrow> [] | Some r \<Rightarrow> r)
           in usage_table rus (AList.update pn (AList.update rn u row) t)))))"

section \<open>core/validation.py: validate_solution_feasibility\<close>

text \<open>
  \<open>epsilon = 1e-6\<close>: the double nearest to \<open>10^-6\<close>, which lies just below it.
\<close>

definition epsilon :: real where
  "epsilon = 4722366482869645 / 2 ^ 72"

definition small_quantities :: "(string \<times> real) list \<Rightarrow> warning list" where
  "small_quantities plan =
     concat (map (\<lambda>(p, q). if 0 < q \<and> q < epsilon then [SmallQuantity p q] else []) plan)"

text \<open>\<open>calculated_usage[resource] += usage * quantity\<close> for one product's row.\<close>

fun add_row_usage ::
  "(string \<times> real) list \<Rightarrow> real \<Rightarrow> (string \<times> real) list \<Rightarrow> error + (string \<times> real) list" where
  "add_row_usage [] q cu = Inr cu"
| "add_row_usage ((res, u) # row) q cu =
     (case map_of cu res of
        None \<Rightarrow> Inl (KeyError res)
      | Some c \<Rightarrow> add_row_usage row q (AList.update res (c + u * q) cu))"

fun calculate_usage ::
  "(string \<times> (string \<times> real) list) list \<Rightarrow> (string \<times> real) list \<Rightarrow>
   (string \<times> real) list \<Rightarrow> error + (string \<times> real) list" where
  "calculate_usage table [] cu = Inr cu"
| "calculate_usage table ((p, q) # plan) cu =
     (case map_of table p of
        None \<Rightarrow> calculate_usage table plan cu
      | Some row \<Rightarrow>
          (case add_row_usage row q cu of
             Inl e \<Rightarrow> Inl e
           | Inr cu' \<Rightarrow> calculate_usage table plan cu'))"

text \<open>
  The comparison with the reported utilization and with the capacity, one resource;
  \<open>result['resource_utilization']\<close> is read inside the loop.
\<close>

definition check_resource ::
  "result \<Rightarrow> (string \<times> resource) list \<Rightarrow> string \<times> real \<Rightarrow> error + warning list" where
  "check_resource res rdict ru =
     (case ru of (rn, u) \<Rightarrow>
        (case item ''resource_utilization'' (resource_utilization res) of
           Inl e \<Rightarrow> Inl e
         | Inr reported \<Rightarrow>
        (let w1 = (case map_of reported rn of
                     None \<Rightarrow> []
                   | Some r \<Rightarrow> if \<bar>u - used r\<bar> > epsilon then [UsageDiffers rn u (used r)] else [])
         in case item rn (map_of rdict rn) of
              Inl e \<Rightarrow> Inl e
            | Inr r \<Rightarrow>
                (case item ''available_capacity'' (available_capacity r) of
                   Inl e \<Rightarrow> Inl e
                 | Inr cap \<Rightarrow>
                     Inr (w1 @ (if u > cap + epsilon then [ExceedsCapacity rn u cap] else []))))))"

text \<open>\<open>'k' in dc and quantity < dc['k'] - epsilon\<close> (and the mirror test for the maximum).\<close>

definition below_min :: "real \<Rightarrow> pyfloat nullable \<Rightarrow> error + pyfloat option" where
  "below_min q f =
     (case f of
        Absent \<Rightarrow> Inr None
      | Null \<Rightarrow> Inl (TypeError none_minus_float)
      | Val v \<Rightarrow> Inr (if float_lt (Finite q) (float_shift v (- epsilon)) then Some v else None))"

definition above_max :: "real \<Rightarrow> pyfloat nullable \<Rightarrow> error + pyfloat option" where
  "above_max q f =
     (case f of
        Absent \<Rightarrow> Inr None
      | Null \<Rightarrow> Inl (TypeError none_plus_float)
      | Val v \<Rightarrow> Inr (if float_gt (Finite q) (float_shift v epsilon) then Some v else None))"

definition check_demand :: "(string \<times> demand) list \<Rightarrow> string \<times> real \<Rightarrow> error + warning list" where
  "check_demand ddict pq =
     (case pq of (p, q) \<Rightarrow>
        (case map_of ddict p of
           None \<Rightarrow> Inr []
         | Some dc \<Rightarrow>
             (case below_min q (min_demand dc) of
                Inl e \<Rightarrow> Inl e
              | Inr lo \<Rightarrow>
                  (case above_max q (max_demand dc) of
                     Inl e \<Rightarrow> Inl e
                   | Inr hi \<Rightarrow>
                       Inr ((case lo of None \<Rightarrow> [] | Some v \<Rightarrow> [BelowMinDemand p q v]) @
                            (case hi of None \<Rightarrow> [] | Some v \<Rightarrow> [AboveMaxDemand p q v]))))))"

definition check_demands :: "demand list option \<Rightarrow> (string \<times> real) list \<Rightarrow> error + warning list" where
  "check_demands dcs plan =
     (case dcs of
        None \<Rightarrow> Inr []
      | Some rows \<Rightarrow>
          (case demand_dict rows of
             Inl e \<Rightarrow> Inl e
           | Inr ddict \<Rightarrow>
               (case traverse (check_demand ddict) plan of
                  Inl e \<Rightarrow> Inl e
                | Inr wss \<Rightarrow> Inr (concat wss))))"

definition check_totals :: "totals option \<Rightarrow> (string \<times> real) list \<Rightarrow> warning list" where
  "check_totals tco plan =
     (case tco of
        None \<Rightarrow> []
      | Some tc \<Rightarrow>
          if \<not> truthy tc then []
          else
            (let total = sum_list (map snd plan)
             in (case min_total tc of
                   Val v \<Rightarrow> if total < v - epsilon then [BelowMinTotal total v] else []
                 | _ \<Rightarrow> []) @
                (case max_total tc of
                   Val v \<Rightarrow> if total > v + epsilon then [AboveMaxTotal total v] else []
                 | _ \<Rightarrow> [])))"

text \<open>
  The verifier returns \<open>(is_feasible, warnings)\<close> with
  \<open>is_feasible = (len(warnings) == 0)\<close>, whatever the kind of the warnings.
\<close>

definition validate_solution_feasibility ::
  "result \<Rightarrow> request \<Rightarrow> error + (bool \<times> warning list)" where
  "validate_solution_feasibility res input_data =
     (if status res \<noteq> ''optimal'' then Inr (False, [NotOptimal (solver_message res)])
      else
        (case item ''production_plan'' (production_plan res) of
           Inl e \<Rightarrow> Inl e
         | Inr plan \<Rightarrow>
        (let w1 = small_quantities plan in
         case item ''resources'' (resources input_data) of
           Inl e \<Rightarrow> Inl e
         | Inr rs \<Rightarrow>
        (case resources_dict rs of
           Inl e \<Rightarrow> Inl e
         | Inr rdict \<Rightarrow>
        (case item ''resource_usage'' (resource_usage input_data) of
           Inl e \<Rightarrow> Inl e
         | Inr rus \<Rightarrow>
        (case usage_table rus [] of
           Inl e \<Rightarrow> Inl e
         | Inr table \<Rightarrow>
        (case calculate_usage table plan (map (\<lambda>(n, r). (n, 0)) rdict) of
           Inl e \<Rightarrow> Inl e
         | Inr calculated \<Rightarrow>
        (case traverse (check_resource res rdict) calculated of
           Inl e \<Rightarrow> Inl e
         | Inr w2 \<Rightarrow>
        (case check_demands (demand_constraints input_data) plan of
           Inl e \<Rightarrow> Inl e
         | Inr w3 \<Rightarrow>
             (let warnings = w1 @ concat w2 @ w3 @
                    check_totals (total_constraints input_data) plan
              in Inr (length warnings = 0, warnings)))))))))))"

section \<open>core/optimizers: the linear model handed to the engine\<close>

text \<open>
  What the optimizers tell Gurobi: variables with bounds, a linear objective with its
  sense, named linear constraints. A linear expression is the list of its terms
  (coefficient, product whose variable it multiplies), in the order they were added.
  The bounds of a variable are the floats passed to \<open>addVar\<close>; the default upper
  bound is \<open>float('inf')\<close>.
\<close>

record variable =
  var_name :: string
  lb :: pyfloat
  ub :: pyfloat

datatype sense = LessEqual | GreaterEqual

datatype direction = MAXIMIZE | MINIMIZE

record constr =
  lhs :: "(real \<times> string) list"
  csense :: sense
  rhs :: real
  ConstrName :: string

record lp_model =
  model_name :: string
  NumericFocus :: nat
  FeasibilityTol :: real
  production_vars :: "(string \<times> variable) list"
  objective_terms :: "(real \<times> string) list"
  objective_sense :: direction
  constrs :: "constr list"

text \<open>
  The engine is a collaborator outside the repository: \<open>model.optimize()\<close> either raises
  or leaves a status code, a value \<open>var.x\<close> for each production variable, the objective
  value, and (after \<open>computeIIS\<close>) the flag \<open>IISConstr\<close> of each constraint, by its
  position in \<open>model.getConstrs()\<close>.
\<close>

record solution =
  grb_status :: nat
  var_x :: "string \<Rightarrow> real"
  objVal :: real
  IISConstr :: "nat \<Rightarrow> bool"

datatype outcome = Raises error | Solved solution

text \<open>The status codes of \<open>gurobipy.GRB\<close> the code compares with.\<close>

definition OPTIMAL :: nat where "OPTIMAL = 2"
definition INFEASIBLE :: nat where "INFEASIBLE = 3"
definition UNBOUNDED :: nat where "UNBOUNDED = 5"

subsection \<open>base.py: ProductionOptimizerBase\<close>

definition extract_common_data ::
  "request \<Rightarrow>
   error + (string \<times> (string \<times> product) list \<times> (string \<times> resource) list \<times>
            (string \<times> (string \<times> real) list) list)" where
  "extract_common_data data =
     (case item ''objective'' (objective data) of
        Inl e \<Rightarrow> Inl e
      | Inr objective_type \<Rightarrow>
     (case item ''products'' (products data) of
        Inl e \<Rightarrow> Inl e
      | Inr ps \<Rightarrow>
     (case products_dict ps of
        Inl e \<Rightarrow> Inl e
      | Inr pdict \<Rightarrow>
     (case item ''resources'' (resources data) of
        Inl e \<Rightarrow> Inl e
      | Inr rs \<Rightarrow>
     (case resources_dict rs of
        Inl e \<Rightarrow> Inl e
      | Inr rdict \<Rightarrow>
     (case item ''resource_usage'' (resource_usage data) of
        Inl e \<Rightarrow> Inl e
      | Inr rus \<Rightarrow>
     (case usage_table rus [] of
        Inl e \<Rightarrow> Inl e
      | Inr table \<Rightarrow> Inr (objective_type, pdict, rdict, table))))))))"

definition set_objective ::
  "string \<Rightarrow> (string \<times> product) list \<Rightarrow> error + ((real \<times> string) list \<times> direction)" where
  "set_objective objective_type pdict =
     (if objective_type = ''maximize_profit'' then
        (case traverse (\<lambda>(n, p). case item ''profit_per_unit'' (profit_per_unit p) of
                                     Inl e \<Rightarrow> Inl e | Inr c \<Rightarrow> Inr (c, n)) pdict of
           Inl e \<Rightarrow> Inl e
         | Inr ts \<Rightarrow> Inr (ts, MAXIMIZE))
      else
        (case traverse (\<lambda>(n, p). case item ''cost_per_unit'' (cost_per_unit p) of
                                     Inl e \<Rightarrow> Inl e | Inr c \<Rightarrow> Inr (c, n)) pdict of
           Inl e \<Rightarrow> Inl e
         | Inr ts \<Rightarrow> Inr (ts, MINIMIZE)))"

text \<open>The left-hand side of one resource's constraint: a term per product that uses it.\<close>

definition resource_terms ::
  "string \<Rightarrow> (string \<times> product) list \<Rightarrow> (string \<times> (string \<times> real) list) list \<Rightarrow>
   (real \<times> string) list" where
  "resource_terms rn pdict table =
     concat (map (\<lambda>(pn, p).
       (case map_of table pn of
          None \<Rightarrow> []
        | Some row \<Rightarrow> (case map_of row rn of None \<Rightarrow> [] | Some u \<Rightarrow> [(u, pn)]))) pdict)"

definition add_resource_constraints ::
  "(string \<times> resource) list \<Rightarrow> (string \<times> product) list \<Rightarrow>
   (string \<times> (string \<times> real) list) list \<Rightarrow> error + constr list" where
  "add_resource_constraints rdict pdict table =
     traverse (\<lambda>(rn, r).
       (case item ''available_capacity'' (available_capacity r) of
          Inl e \<Rightarrow> Inl e
        | Inr cap \<Rightarrow>
            Inr \<lparr>lhs = resource_terms rn pdict table, csense = LessEqual, rhs = cap,
                 ConstrName = ''resource_'' @ rn\<rparr>)) rdict"

definition add_total_product_constraints ::
  "(string \<times> product) list \<Rightarrow> totals \<Rightarrow> constr list" where
  "add_total_product_constraints pdict tc =
     (if \<not> truthy tc then []
      else
        (let total = map (\<lambda>(pn, p). (1, pn)) pdict
         in (case min_total tc of
               Val v \<Rightarrow>
                 if v > 0 then
                   [\<lparr>lhs = total, csense = GreaterEqual, rhs = v,
                     ConstrName = ''min_total_production''\<rparr>]
                 else []
             | _ \<Rightarrow> []) @
            (case max_total tc of
               Val v \<Rightarrow>
                 if v > 0 then
                   [\<lparr>lhs = total, csense = LessEqual, rhs = v,
                     ConstrName = ''max_total_production''\<rparr>]
                 else []
             | _ \<Rightarrow> [])))"

definition get_resource_utilization ::
  "solution \<Rightarrow> (string \<times> resource) list \<Rightarrow> (string \<times> variable) list \<Rightarrow>
   (string \<times> (string \<times> real) list) list \<Rightarrow> error + (string \<times> utilization) list" where
  "get_resource_utilization sol rdict pvars table =
     traverse (\<lambda>(rn, r).
       (case item ''available_capacity'' (available_capacity r) of
          Inl e \<Rightarrow> Inl e
        | Inr avail \<Rightarrow>
            (let u = fold (\<lambda>(pn, row) acc.
                       (case map_of row rn of
                          None \<Rightarrow> acc
                        | Some a \<Rightarrow> if map_of pvars pn \<noteq> None then acc + a * var_x sol pn else acc))
                       table 0
             in Inr (rn, \<lparr>used = u, available = avail,
                          utilization_pct = (if avail > 0 then (u / avail) * 100 else 0)\<rparr>))))
       rdict"

text \<open>
  \<open>total = 0.0; for var: total += var.x\<close>. The additions are floating-point additions:
  \<open>float_add\<close> is the addition of two doubles, rounded.
\<close>

definition calculate_total_production ::
  "(real \<Rightarrow> real \<Rightarrow> real) \<Rightarrow> solution \<Rightarrow> (string \<times> variable) list \<Rightarrow> real" where
  "calculate_total_production float_add sol pvars =
     fold (\<lambda>(pn, v) total. float_add total (var_x sol pn)) pvars 0"

text \<open>
  The reported plan: values with \<open>abs(value) < 1e-8\<close> become \<open>0.0\<close>. The double nearest
  to \<open>10^-8\<close> lies just above it and no double lies between the two, so for a double
  the test against \<open>10^-8\<close> is the code's test.
\<close>

definition clamp_small :: "real \<Rightarrow> real" where
  "clamp_small v = (if \<bar>v\<bar> < 1 / 100000000 then 0 else v)"

definition plan_of :: "solution \<Rightarrow> (string \<times> variable) list \<Rightarrow> (string \<times> real) list" where
  "plan_of sol pvars = map (\<lambda>(pn, v). (pn, clamp_small (var_x sol pn))) pvars"

text \<open>The names of the constraints the engine flagged, in the order of \<open>getConstrs()\<close>.\<close>

definition flagged_constraints :: "solution \<Rightarrow> constr list \<Rightarrow> string list" where
  "flagged_constraints sol cs =
     map (\<lambda>(i, c). ConstrName c) (filter (\<lambda>(i, c). IISConstr sol i) (enumerate 0 cs))"

fun digit_char :: "nat \<Rightarrow> char" where
  "digit_char n = char_of (48 + n)"

fun str_nat :: "nat \<Rightarrow> string" where
  "str_nat n = (if n < 10 then [digit_char n] else str_nat (n div 10) @ [digit_char (n mod 10)])"

declare str_nat.simps [simp del]

definition prepare_result ::
  "(real \<Rightarrow> real \<Rightarrow> real) \<Rightarrow> lp_model \<Rightarrow> solution \<Rightarrow> (string \<times> resource) list \<Rightarrow>
   (string \<times> (string \<times> real) list) list \<Rightarrow> error + result" where
  "prepare_result float_add m sol rdict table =
     (if grb_status sol = OPTIMAL then
        (case get_resource_utilization sol rdict (production_vars m) table of
           Inl e \<Rightarrow> Inl e
         | Inr util \<Rightarrow>
             Inr ((plain_result ''optimal'' ''Optimal solution found'')
                    \<lparr>objective_value := Some (objVal sol),
                     production_plan := Some (plan_of sol (production_vars m)),
                     resource_utilization := Some util,
                     total_production :=
                       Some (calculate_total_production float_add sol (production_vars m))\<rparr>))
      else if grb_status sol = INFEASIBLE then
        (let infeasible = flagged_constraints sol (constrs m)
         in Inr ((plain_result ''infeasible'' ''The model is infeasible'')
                   \<lparr>infeasible_constraints :=
                      Some (if infeasible \<noteq> [] then Names infeasible else Unknown)\<rparr>))
      else if grb_status sol = UNBOUNDED then
        Inr (plain_result ''unbounded''
               ''The model is unbounded (no finite optimal solution exists)'')
      else
        Inr (plain_result ''error'' (''Optimization status: '' @ str_nat (grb_status sol))))"

subsection \<open>basic_production.py and demand_production.py\<close>

datatype optimizer_class = BasicProductionOptimizer | DemandConstrainedOptimizer

text \<open>
  The effects a request has on the outside of the function that handles it: an optimizer
  object is constructed, a Gurobi model is created, a model is optimized.
\<close>

datatype event = Instantiate optimizer_class | CreateModel string | Optimize lp_model

definition create_production_variables :: "(string \<times> product) list \<Rightarrow> (string \<times> variable) list" where
  "create_production_variables pdict =
     map (\<lambda>(pn, p). (pn, \<lparr>var_name = ''produce_'' @ pn, lb = Finite 0, ub = PosInf\<rparr>)) pdict"

text \<open>The bounds one product gets from its entry of \<open>demand_constraints\<close>, if it has one.\<close>

definition demand_bounds :: "demand option \<Rightarrow> pyfloat \<times> pyfloat" where
  "demand_bounds entry =
     (case entry of
        None \<Rightarrow> (Finite 0, PosInf)
      | Some c \<Rightarrow>
          (let l = (case min_demand c of Val v \<Rightarrow> py_max (Finite 0) v | _ \<Rightarrow> Finite 0)
           in (case max_demand c of
                 Val v \<Rightarrow> (l, if float_gt l v then l else v)
               | _ \<Rightarrow> (l, PosInf))))"

definition create_production_variables_with_demand ::
  "(string \<times> product) list \<Rightarrow> (string \<times> demand) list \<Rightarrow> (string \<times> variable) list" where
  "create_production_variables_with_demand pdict ddict =
     map (\<lambda>(pn, p).
       (case demand_bounds (map_of ddict pn) of
          (l, u) \<Rightarrow> (pn, \<lparr>var_name = ''produce_'' @ pn, lb = l, ub = u\<rparr>))) pdict"

text \<open>
  The part of \<open>solve\<close> between \<open>_create_model\<close> and \<open>model.optimize()\<close>: the model as it
  stands when the engine is called, with the two dictionaries \<open>_prepare_result\<close> reads.
\<close>

definition assemble_model ::
  "string \<Rightarrow> string \<Rightarrow> (string \<times> product) list \<Rightarrow> (string \<times> resource) list \<Rightarrow>
   (string \<times> (string \<times> real) list) list \<Rightarrow> (string \<times> variable) list \<Rightarrow> totals option \<Rightarrow>
   error + lp_model" where
  "assemble_model name objective_type pdict rdict table pvars tco =
     (case set_objective objective_type pdict of
        Inl e \<Rightarrow> Inl e
      | Inr (terms, dir) \<Rightarrow>
          (case add_resource_constraints rdict pdict table of
             Inl e \<Rightarrow> Inl e
           | Inr cs \<Rightarrow>
               Inr \<lparr>model_name = name, NumericFocus = 3, FeasibilityTol = 1 / 1000000,
                    production_vars = pvars, objective_terms = terms, objective_sense = dir,
                    constrs = cs @ (case tco of
                                      None \<Rightarrow> []
                                    | Some tc \<Rightarrow> add_total_product_constraints pdict tc)\<rparr>))"

definition basic_model ::
  "request \<Rightarrow>
   error + (lp_model \<times> (string \<times> resource) list \<times> (string \<times> (string \<times> real) list) list)" where
  "basic_model data =
     (case extract_common_data data of
        Inl e \<Rightarrow> Inl e
      | Inr (objective_type, pdict, rdict, table) \<Rightarrow>
          (case assemble_model ''basic_production_optimization'' objective_type pdict rdict table
                  (create_production_variables pdict) (total_constraints data) of
             Inl e \<Rightarrow> Inl e
           | Inr m \<Rightarrow> Inr (m, rdict, table)))"

definition demand_model ::
  "request \<Rightarrow>
   error + (lp_model \<times> (string \<times> resource) list \<times> (string \<times> (string \<times> real) list) list)" where
  "demand_model data =
     (case extract_common_data data of
        Inl e \<Rightarrow> Inl e
      | Inr (objective_type, pdict, rdict, table) \<Rightarrow>
          (case (case demand_constraints data of
                   None \<Rightarrow> Inr []
                 | Some dcs \<Rightarrow> demand_dict dcs) of
             Inl e \<Rightarrow> Inl e
           | Inr ddict \<Rightarrow>
               (case assemble_model ''demand_constrained_optimization'' objective_type pdict
                       rdict table (create_production_variables_with_demand pdict ddict)
                       (total_constraints data) of
                  Inl e \<Rightarrow> Inl e
                | Inr m \<Rightarrow> Inr (m, rdict, table))))"

text \<open>
  \<open>model.optimize()\<close> and \<open>_prepare_result\<close>, inside the \<open>try\<close> of \<open>solve\<close>: any exception
  becomes the result \<open>{'status': 'error', 'solver_message': str(e)}\<close>.
\<close>

definition optimize_and_report ::
  "(real \<Rightarrow> real \<Rightarrow> real) \<Rightarrow> (lp_model \<Rightarrow> outcome) \<Rightarrow> string \<Rightarrow>
   error + (lp_model \<times> (string \<times> resource) list \<times> (string \<times> (string \<times> real) list) list) \<Rightarrow>
   result \<times> event list" where
  "optimize_and_report float_add engine name built =
     (case built of
        Inl e \<Rightarrow> (plain_result ''error'' (str_error e), [CreateModel name])
      | Inr (m, rdict, table) \<Rightarrow>
          (case engine m of
             Raises e \<Rightarrow> (plain_result ''error'' (str_error e), [CreateModel name, Optimize m])
           | Solved sol \<Rightarrow>
               (case prepare_result float_add m sol rdict table of
                  Inl e \<Rightarrow> (plain_result ''error'' (str_error e), [CreateModel name, Optimize m])
                | Inr r \<Rightarrow> (r, [CreateModel name, Optimize m]))))"

fun solve ::
  "(real \<Rightarrow> real \<Rightarrow> real) \<Rightarrow> optimizer_class \<Rightarrow> (lp_model \<Rightarrow> outcome) \<Rightarrow> request \<Rightarrow>
   result \<times> event list" where
  "solve float_add BasicProductionOptimizer engine data =
     optimize_and_report float_add engine ''basic_production_optimization'' (basic_model data)"
| "solve float_add DemandConstrainedOptimizer engine data =
     optimize_and_report float_add engine ''demand_constrained_optimization''
       (demand_model data)"

section \<open>core/factory.py: OptimizerFactory\<close>

text \<open>
  The status and warnings after the verifier has run on an optimal result. The second
  branch is the code's \<open>elif feasibility_warnings\<close>.
\<close>

definition apply_feasibility :: "result \<Rightarrow> bool \<times> warning list \<Rightarrow> result" where
  "apply_feasibility res verdict =
     (case verdict of (is_feasible, ws) \<Rightarrow>
        if \<not> is_feasible then res\<lparr>status := ''solution_warning'', feasibility_warnings := Some ws\<rparr>
        else if ws \<noteq> [] then res\<lparr>feasibility_warnings := Some ws\<rparr>
        else res)"

definition validation_error_result :: "message list \<Rightarrow> result" where
  "validation_error_result errs =
     (plain_result ''validation_error'' ''Input validation failed'')
       \<lparr>validation_errors := Some errs\<rparr>"

definition get_optimizer ::
  "(string \<times> optimizer_class) list \<Rightarrow> string \<Rightarrow> error + optimizer_class" where
  "get_optimizer registry optimizer_type =
     (case map_of registry optimizer_type of
        None \<Rightarrow> Inl (ValueError (''Unknown optimizer type: '' @ optimizer_type))
      | Some c \<Rightarrow> Inr c)"

text \<open>\<open>except ValueError as e\<close>: any other exception leaves \<open>optimize\<close>.\<close>

definition except_ValueError :: "error \<Rightarrow> error + result" where
  "except_ValueError e =
     (case e of ValueError m \<Rightarrow> Inr (plain_result ''error'' m) | _ \<Rightarrow> Inl e)"

definition optimize ::
  "(real \<Rightarrow> real \<Rightarrow> real) \<Rightarrow> (string \<times> optimizer_class) list \<Rightarrow> (lp_model \<Rightarrow> outcome) \<Rightarrow>
   string \<Rightarrow> request \<Rightarrow> (error + result) \<times> event list" where
  "optimize float_add registry engine optimizer_type data =
     (case validate_optimization_input data of
        Inl e \<Rightarrow> (except_ValueError e, [])
      | Inr (is_valid, errs) \<Rightarrow>
          if \<not> is_valid then (Inr (validation_error_result errs), [])
          else
            (case get_optimizer registry optimizer_type of
               Inl e \<Rightarrow> (except_ValueError e, [])
             | Inr c \<Rightarrow>
                 (case solve float_add c engine data of (res, evs) \<Rightarrow>
                    if status res = ''optimal'' then
                      (case validate_solution_feasibility res data of
                         Inl e \<Rightarrow> (except_ValueError e, Instantiate c # evs)
                       | Inr verdict \<Rightarrow> (Inr (apply_feasibility res verdict), Instantiate c # evs))
                    else (Inr res, Instantiate c # evs))))"

text \<open>\<open>validate_and_solve\<close> of base.py: the same steps on one optimizer, without the \<open>try\<close>.\<close>

definition validate_and_solve ::
  "(real \<Rightarrow> real \<Rightarrow> real) \<Rightarrow> optimizer_class \<Rightarrow> (lp_model \<Rightarrow> outcome) \<Rightarrow> request \<Rightarrow>
   (error + result) \<times> event list" where
  "validate_and_solve float_add c engine data =
     (case validate_optimization_input data of
        Inl e \<Rightarrow> (Inl e, [])
      | Inr (is_valid, errs) \<Rightarrow>
          if \<not> is_valid then (Inr (validation_error_result errs), [])
          else
            (case solve float_add c engine data of (res, evs) \<Rightarrow>
               if status res = ''optimal'' then
                 (case validate_solution_feasibility res data of
                    Inl e \<Rightarrow> (Inl e, evs)
                  | Inr verdict \<Rightarrow> (Inr (apply_feasibility res verdict), evs))
               else (Inr res, evs)))"

text \<open>
  The registry after the module is imported: the two explicit registrations, then
  \<open>discover_optimizers\<close>, which registers every optimizer class it finds in the package
  under its class name without the suffix \<open>Optimizer\<close>, in kebab case.
\<close>

definition isupper :: "char \<Rightarrow> bool" where
  "isupper c = (65 \<le> (of_char c :: nat) \<and> (of_char c :: nat) \<le> 90)"

definition lower :: "char \<Rightarrow> char" where
  "lower c = (if isupper c then char_of ((of_char c :: nat) + 32) else c)"

definition optimizer_type_of :: "string \<Rightarrow> string" where
  "optimizer_type_of class_name =
     (let n = (if drop (length class_name - 9) class_name = ''Optimizer''
               then take (length class_name - 9) class_name else class_name)
      in dropWhile (\<lambda>c. c = CHR ''-'')
           (concat (map (\<lambda>c. if isupper c then [CHR ''-'', lower c] else [c]) n)))"

fun class_name_of :: "optimizer_class \<Rightarrow> string" where
  "class_name_of BasicProductionOptimizer = ''BasicProductionOptimizer''"
| "class_name_of DemandConstrainedOptimizer = ''DemandConstrainedOptimizer''"

definition register_optimizer ::
  "string \<Rightarrow> optimizer_class \<Rightarrow> (string \<times> optimizer_class) list \<Rightarrow>
   (string \<times> optimizer_class) list" where
  "register_optimizer optimizer_type c registry = AList.update optimizer_type c registry"

definition discover_optimizers ::
  "(string \<times> optimizer_class) list \<Rightarrow> (string \<times> optimizer_class) list" where
  "discover_optimizers registry =
     fold (\<lambda>c. register_optimizer (optimizer_type_of (class_name_of c)) c)
       [BasicProductionOptimizer, BasicProductionOptimizer, DemandConstrainedOptimizer] registry"

definition registered_optimizers :: "(string \<times> optimizer_class) list" where
  "registered_optimizers =
     discover_optimizers
       (register_optimizer ''demand-constrained'' DemandConstrainedOptimizer
         (register_optimizer ''basic'' BasicProductionOptimizer []))"

section \<open>api/endpoints/production.py: POST /optimize/<optimizer_type>\<close>

text \<open>
  The handler returns the body with an explicit 400 for a validation error, the body alone
  (HTTP 200) for every other result, and 500 with the exception's text when anything
  raises.
\<close>

definition post ::
  "(real \<Rightarrow> real \<Rightarrow> real) \<Rightarrow> (string \<times> optimizer_class) list \<Rightarrow> (lp_model \<Rightarrow> outcome) \<Rightarrow>
   string \<Rightarrow> request \<Rightarrow> (result \<times> nat) \<times> event list" where
  "post float_add registry engine optimizer_type data =
     (case optimize float_add registry engine optimizer_type data of
        (Inl e, evs) \<Rightarrow> ((plain_result ''error'' (str_error e), 500), evs)
      | (Inr res, evs) \<Rightarrow>
          if status res = ''validation_error'' then ((res, 400), evs) else ((res, 200), evs))"

section \<open>vehicle-routing/core/solver.py: VRPSolver\<close>

record VRPSolver =
  num_vehicles :: nat
  depot_idx :: nat
  locations :: "(real \<times> real) list"
  demands :: "real list"
  capacity :: real

definition num_locations :: "VRPSolver \<Rightarrow> nat" where
  "num_locations s = length (locations s)"

text \<open>\<open>_compute_distance_matrix\<close>, read at indices below \<open>num_locations\<close>.\<close>

definition dist_matrix :: "VRPSolver \<Rightarrow> nat \<Rightarrow> nat \<Rightarrow> real" where
  "dist_matrix s i j =
     (if i \<noteq> j then
        (case (locations s ! i, locations s ! j) of
           ((x1, y1), (x2, y2)) \<Rightarrow> sqrt ((x2 - x1)\<^sup>2 + (y2 - y1)\<^sup>2))
      else 0)"

record vrp_result =
  routes :: "nat list list"
  total_distance :: real
  vrp_status :: string

text \<open>
  What happened inside the \<open>try\<close> up to the end of \<open>model.optimize()\<close>: an exception,
  or a status code with the values \<open>x[i, j, k].x\<close> of the arc variables.
\<close>

datatype vrp_outcome = Raised error | Optimized nat "nat \<Rightarrow> nat \<Rightarrow> nat \<Rightarrow> real"

text \<open>The inner \<open>for j in range(num_locations)\<close> with its \<open>break\<close>.\<close>

definition next_stop :: "(nat \<Rightarrow> nat \<Rightarrow> nat \<Rightarrow> real) \<Rightarrow> nat \<Rightarrow> nat \<Rightarrow> nat \<Rightarrow> nat option" where
  "next_stop x n k current = find (\<lambda>j. j \<noteq> current \<and> x current j k > 1 / 2) [0..<n]"

text \<open>The \<open>while True\<close> loop of one vehicle; \<open>None\<close> when it never leaves the loop.\<close>

partial_function (option) follow ::
  "(nat \<Rightarrow> nat \<Rightarrow> nat \<Rightarrow> real) \<Rightarrow> nat \<Rightarrow> nat \<Rightarrow> nat \<Rightarrow> nat \<Rightarrow> nat list \<Rightarrow> nat list option" where
  "follow x n depot k current route =
     (case next_stop x n k current of
        None \<Rightarrow> Some route
      | Some j \<Rightarrow>
          if j = depot then Some (route @ [depot])
          else follow x n depot k j (route @ [j]))"

text \<open>The loop over the vehicles: a route of length at most 2 leaves \<open>routes[k]\<close> empty.\<close>

fun vehicle_routes ::
  "(nat \<Rightarrow> nat \<Rightarrow> nat \<Rightarrow> real) \<Rightarrow> nat \<Rightarrow> nat \<Rightarrow> nat list \<Rightarrow> nat list list option" where
  "vehicle_routes x n depot [] = Some []"
| "vehicle_routes x n depot (k # ks) =
     (case follow x n depot k depot [depot] of
        None \<Rightarrow> None
      | Some route \<Rightarrow>
          (case vehicle_routes x n depot ks of
             None \<Rightarrow> None
           | Some rs \<Rightarrow> Some ((if length route > 2 then route else []) # rs)))"

definition route_distance :: "VRPSolver \<Rightarrow> nat list \<Rightarrow> real" where
  "route_distance s route =
     sum_list (map (\<lambda>i. dist_matrix s (route ! i) (route ! (i + 1))) [0..<length route - 1])"

text \<open>
  \<open>solve\<close> from the end of \<open>model.optimize()\<close> on. Only \<open>gp.GurobiError\<close> is caught;
  the outer \<open>option\<close> is \<open>None\<close> when the extraction loop does not end.
\<close>

definition vrp_solve :: "VRPSolver \<Rightarrow> vrp_outcome \<Rightarrow> (error + vrp_result) option" where
  "vrp_solve s out =
     (case out of
        Raised e \<Rightarrow>
          (case e of
             GurobiError m \<Rightarrow>
               Some (Inr \<lparr>routes = [], total_distance = 0, vrp_status = ''Error: '' @ m\<rparr>)
           | _ \<Rightarrow> Some (Inl e))
      | Optimized st x \<Rightarrow>
          if st = OPTIMAL then
            (case vehicle_routes x (num_locations s) (depot_idx s) [0..<num_vehicles s] of
               None \<Rightarrow> None
             | Some rs \<Rightarrow>
                 (let kept = filter (\<lambda>r. r \<noteq> []) rs
                  in Some (Inr \<lparr>routes = kept,
                                 total_distance = sum_list (map (route_distance s) kept),
                                 vrp_status = ''Optimal''\<rparr>)))
          else
            Some (Inr \<lparr>routes = [], total_distance = 0, vrp_status = ''No solution found''\<rparr>))"







section \<open>What the specification states, in its own words\<close>

text \<open>
  The bounds of a production variable as the specification gives them: the lower bound is
  \<open>max(0, min_demand)\<close> when a minimum is given and 0 otherwise, the upper bound is
  \<open>max_demand\<close> when a maximum is given and \<open>+infinity\<close> otherwise, and an upper bound
  that the lower bound exceeds is raised to it.
\<close>

definition lb_stated :: "demand option \<Rightarrow> pyfloat" where
  "lb_stated entry =
     (case entry of
        None \<Rightarrow> Finite 0
      | Some c \<Rightarrow> (case min_demand c of Val a \<Rightarrow> py_max (Finite 0) a | _ \<Rightarrow> Finite 0))"

definition ub_stated :: "demand option \<Rightarrow> pyfloat" where
  "ub_stated entry =
     (case entry of
        None \<Rightarrow> PosInf
      | Some c \<Rightarrow> (case max_demand c of Val b \<Rightarrow> b | _ \<Rightarrow> PosInf))"

definition ub_clamped :: "pyfloat \<Rightarrow> pyfloat \<Rightarrow> pyfloat" where
  "ub_clamped lo hi = (if float_gt lo hi then lo else hi)"


section \<open>Concrete requests and engine answers\<close>

text \<open>
  One product \<open>A\<close> (profit 3, cost 1) that uses one unit of the single resource \<open>R\<close>
  (capacity 100), with a chosen objective and chosen demand constraints.
\<close>

definition one_product_request :: "string \<Rightarrow> demand list option \<Rightarrow> request" where
  "one_product_request obj dcs =
     \<lparr>objective = Some obj,
      products = Some [\<lparr>p_name = Some ''A'', profit_per_unit = Some 3, cost_per_unit = Some 1\<rparr>],
      resources = Some [\<lparr>r_name = Some ''R'', available_capacity = Some 100\<rparr>],
      resource_usage =
        Some [\<lparr>product_name = Some ''A'', resource_name = Some ''R'', usage_per_unit = Some 1\<rparr>],
      demand_constraints = dcs,
      total_constraints = None\<rparr>"

text \<open>\<open>demand_constraints: [{product_name: A, min_demand: v}]\<close>.\<close>

definition floor_of :: "real \<Rightarrow> demand list option" where
  "floor_of v =
     Some [\<lparr>d_product_name = Some ''A'', min_demand = Val (Finite v), max_demand = Absent\<rparr>]"

text \<open>\<open>demand_constraints: [{product_name: A, min_demand: 2, max_demand: NaN}]\<close>.\<close>

definition nan_ceiling :: demand where
  "nan_ceiling =
     \<lparr>d_product_name = Some ''A'', min_demand = Val (Finite 2), max_demand = Val NaN\<rparr>"

text \<open>
  An engine that reports optimal with every variable at \<open>v\<close>. For the request above with
  objective \<open>minimize_cost\<close> and the floor \<open>v\<close> on \<open>A\<close> this is the optimum of the model
  (minimise \<open>x\<close> subject to \<open>x \<le> 100\<close>, \<open>x \<ge> v\<close>).
\<close>

definition engine_at :: "real \<Rightarrow> lp_model \<Rightarrow> outcome" where
  "engine_at v m =
     Solved \<lparr>grb_status = OPTIMAL, var_x = (\<lambda>p. v), objVal = v, IISConstr = (\<lambda>i. False)\<rparr>"

text \<open>The same request with a usage row that has no \<open>product_name\<close> key.\<close>

definition bad_usage_request :: request where
  "bad_usage_request =
     \<lparr>objective = Some ''maximize_profit'',
      products = Some [\<lparr>p_name = Some ''A'', profit_per_unit = Some 3, cost_per_unit = Some 1\<rparr>],
      resources = Some [\<lparr>r_name = Some ''R'', available_capacity = Some 100\<rparr>],
      resource_usage =
        Some [\<lparr>product_name = None, resource_name = Some ''R'', usage_per_unit = Some 1\<rparr>],
      demand_constraints = None,
      total_constraints = None\<rparr>"

text \<open>The empty JSON object.\<close>

definition empty_request :: request where
  "empty_request =
     \<lparr>objective = None, products = None, resources = None, resource_usage = None,
      demand_constraints = None, total_constraints = None\<rparr>"


text \<open>
  A model with a resource constraint and a minimum on the total, and an engine answer
  that reports it infeasible with chosen IIS flags.
\<close>

definition two_constraint_model :: lp_model where
  "two_constraint_model =
     \<lparr>model_name = ''basic_production_optimization'', NumericFocus = 3,
      FeasibilityTol = 1 / 1000000,
      production_vars = [(''A'', \<lparr>var_name = ''produce_A'', lb = Finite 0, ub = PosInf\<rparr>)],
      objective_terms = [(3, ''A'')], objective_sense = MAXIMIZE,
      constrs =
        [\<lparr>lhs = [(1, ''A'')], csense = LessEqual, rhs = 10, ConstrName = ''resource_R''\<rparr>,
         \<lparr>lhs = [(1, ''A'')], csense = GreaterEqual, rhs = 20,
           ConstrName = ''min_total_production''\<rparr>]\<rparr>"

definition infeasible_answer :: "(nat \<Rightarrow> bool) \<Rightarrow> solution" where
  "infeasible_answer flags =
     \<lparr>grb_status = INFEASIBLE, var_x = (\<lambda>p. 0), objVal = 0, IISConstr = flags\<rparr>"

text \<open>
  A depot and two customers, two vehicles; vehicle 0 drives 0, 1, 2, 0 and vehicle 1
  stays at the depot.
\<close>

definition triangle :: VRPSolver where
  "triangle =
     \<lparr>num_vehicles = 2, depot_idx = 0, locations = [(0, 0), (3, 0), (3, 4)],
      demands = [0, 1, 1], capacity = 10\<rparr>"

definition triangle_arcs :: "nat \<Rightarrow> nat \<Rightarrow> nat \<Rightarrow> real" where
  "triangle_arcs i j k =
     (if k = 0 \<and> ((i = 0 \<and> j = 1) \<or> (i = 1 \<and> j = 2) \<or> (i = 2 \<and> j = 0)) then 1 else 0)"

section \<open>Verification: the input validator\<close>

text \<open>
  Claim C4. The specification says the validator never throws and always returns a pair
  \<open>(is_valid, error_messages)\<close>. On the code this fails: for the request
  \<open>bad_usage_request\<close>, whose only usage row lacks \<open>product_name\<close>, the validator appends
  the message for the missing key and then, in the check that every product has a usage
  row, reads \<open>ru['product_name']\<close> and leaves with \<open>KeyError('product_name')\<close>.
\<close>

theorem validator_raises_KeyError:
  "validate_optimization_input bad_usage_request = Inl (KeyError ''product_name'')"
  by (simp add: bad_usage_request_def validate_optimization_input_def missing_fields_def
      check_objective_def set_add_def validate_resource_usage_def validate_usage_row_def
      check_products_have_usage_def check_product_usage_def item_def)

text \<open>Whenever the validator does return, the flag says whether the list is empty.\<close>

lemma validator_flag:
  assumes "validate_optimization_input data = Inr (is_valid, errs)"
  shows "is_valid \<longleftrightarrow> errs = []"
proof (cases "missing_fields data = []")
  case False
  then show ?thesis
    using assms by (auto simp: validate_optimization_input_def Let_def)
next
  case True
  then have "objective data \<noteq> None" "products data \<noteq> None" "resources data \<noteq> None"
    "resource_usage data \<noteq> None"
    by (auto simp: missing_fields_def split: if_splits)
  then show ?thesis
    using assms True
    by (auto simp: validate_optimization_input_def Let_def
        split: option.splits prod.splits sum.splits)
qed

section \<open>Verification: the optimizer factory and the HTTP handler\<close>

lemma empty_request_invalid:
  "validate_optimization_input empty_request =
     Inr (False, [MissingRequiredField ''objective'', MissingRequiredField ''products'',
                  MissingRequiredField ''resources'', MissingRequiredField ''resource_usage''])"
  by code_simp

text \<open>
  Claim C9. \<open>OptimizerFactory.optimize\<close> validates before it looks the optimizer up: when
  the validator returns \<open>is_valid = False\<close> with messages \<open>errs\<close>, then for every registry,
  engine and optimizer identifier (registered or not) the result is the
  \<open>validation_error\<close> result carrying \<open>errs\<close>, and nothing has happened on the way: no
  optimizer was instantiated, no model created or optimized (the event list is empty).
\<close>

theorem validation_precedes_lookup:
  assumes "validate_optimization_input data = Inr (False, errs)"
  shows "optimize float_add registry engine optimizer_type data =
           (Inr (validation_error_result errs), [])
     \<and> status (validation_error_result errs) = ''validation_error''
     \<and> validation_errors (validation_error_result errs) = Some errs"
  unfolding optimize_def assms by (simp add: validation_error_result_def plain_result_def)

theorem validation_precedes_lookup_witness:
  "validate_optimization_input empty_request =
     Inr (False, [MissingRequiredField ''objective'', MissingRequiredField ''products'',
                  MissingRequiredField ''resources'', MissingRequiredField ''resource_usage'']) \<and>
   optimize (+) registered_optimizers (engine_at 0) ''no-such-optimizer'' empty_request =
     (Inr (validation_error_result
             [MissingRequiredField ''objective'', MissingRequiredField ''products'',
              MissingRequiredField ''resources'', MissingRequiredField ''resource_usage'']), [])"
  using validation_precedes_lookup
      [where data = empty_request and float_add = "(+)" and registry = registered_optimizers
         and engine = "engine_at 0" and optimizer_type = "''no-such-optimizer''",
       OF empty_request_invalid]
    empty_request_invalid
  by simp

lemma plain_request_valid:
  "validate_optimization_input (one_product_request ''maximize_profit'' None) = Inr (True, [])"
  by code_simp

lemma foo_not_registered: "map_of registered_optimizers ''foo'' = None"
  by code_simp

text \<open>
  Claim C2. The specification and the handler's own docstring promise HTTP 400 for an
  unknown optimizer. On the code the lookup does fail with
  \<open>ValueError('Unknown optimizer type: foo')\<close>, but \<open>optimize\<close> turns it into a result with
  status \<open>error\<close>, and the handler sends 400 only for status \<open>validation_error\<close>: a valid
  payload posted to \<open>/optimize/foo\<close> is answered with HTTP 200, whatever the engine.
\<close>

theorem unknown_optimizer_http_200:
  "post float_add registered_optimizers engine ''foo''
     (one_product_request ''maximize_profit'' None) =
     ((plain_result ''error'' ''Unknown optimizer type: foo'', 200), [])"
  by (simp add: post_def optimize_def plain_request_valid get_optimizer_def foo_not_registered
      except_ValueError_def plain_result_def)

text \<open>
  The verifier's flag only says whether there is any warning, so any warning at all
  turns an optimal result into a \<open>solution_warning\<close>.
\<close>

lemma verifier_flag:
  assumes "validate_solution_feasibility res data = Inr (is_feasible, ws)"
    and "status res = ''optimal''"
  shows "is_feasible \<longleftrightarrow> ws = []"
  using assms
  by (auto simp: validate_solution_feasibility_def Let_def split: sum.splits)

lemma any_warning_downgrades:
  assumes "validate_solution_feasibility res data = Inr (is_feasible, ws)"
    and "status res = ''optimal''"
  shows "status (apply_feasibility res (is_feasible, ws)) =
           (if ws = [] then ''optimal'' else ''solution_warning'')"
  using verifier_flag[OF assms] assms(2) by (simp add: apply_feasibility_def)

text \<open>
  Claim C1. The specification says that only capacity and bound violations downgrade an
  optimal result to \<open>solution_warning\<close>, and that a numerical-precision warning leaves the
  status \<open>optimal\<close>. On the code every warning downgrades: the verifier returns
  \<open>is_feasible = (len(warnings) == 0)\<close>, so the factory's branch for "feasible but with
  warnings" is never taken. For product \<open>A\<close> with \<open>min_demand = 5e-7\<close> and objective
  \<open>minimize_cost\<close>, the optimum \<open>x = 5e-7\<close> violates nothing and gets the single
  warning "very small production quantity", and the status becomes \<open>solution_warning\<close>.
\<close>

theorem small_quantity_downgrades:
  "fst (optimize float_add registered_optimizers (engine_at (1 / 2000000))
         ''demand-constrained''
         (one_product_request ''minimize_cost'' (floor_of (1 / 2000000)))) =
     Inr \<lparr>status = ''solution_warning'', solver_message = ''Optimal solution found'',
          objective_value = Some (1 / 2000000),
          production_plan = Some [(''A'', 1 / 2000000)],
          resource_utilization =
            Some [(''R'', \<lparr>used = 1 / 2000000, available = 100, utilization_pct = 1 / 2000000\<rparr>)],
          total_production = Some (float_add 0 (1 / 2000000)),
          feasibility_warnings = Some [SmallQuantity ''A'' (1 / 2000000)],
          infeasible_constraints = None, validation_errors = None\<rparr>"
  by code_simp

text \<open>\<open>validate_and_solve\<close> of base.py runs the same steps and gives the same result.\<close>

lemma base_class_downgrades_too:
  "fst (validate_and_solve float_add DemandConstrainedOptimizer (engine_at (1 / 2000000))
         (one_product_request ''minimize_cost'' (floor_of (1 / 2000000)))) =
   fst (optimize float_add registered_optimizers (engine_at (1 / 2000000))
         ''demand-constrained''
         (one_product_request ''minimize_cost'' (floor_of (1 / 2000000))))"
  by code_simp

section \<open>Verification: the production variables of the two optimizers\<close>

lemma float_le_refl: "a \<noteq> NaN \<Longrightarrow> float_le a a"
  by (simp add: float_le_def)

lemma float_total: "a \<noteq> NaN \<Longrightarrow> b \<noteq> NaN \<Longrightarrow> \<not> float_gt a b \<Longrightarrow> float_le a b"
  by (cases a; cases b) (auto simp: float_gt_def float_le_def)

lemma py_max_not_NaN: "a \<noteq> NaN \<Longrightarrow> py_max a b \<noteq> NaN"
  by (cases b) (auto simp: py_max_def float_gt_def)

text \<open>The lower bound is never NaN: \<open>max(0.0, nan)\<close> is \<open>0.0\<close>.\<close>

lemma lb_stated_not_NaN: "lb_stated entry \<noteq> NaN"
  by (auto simp: lb_stated_def py_max_not_NaN split: option.splits nullable.splits)

lemma clamped_consistent: "lo \<noteq> NaN \<Longrightarrow> hi \<noteq> NaN \<Longrightarrow> float_le lo (ub_clamped lo hi)"
  by (simp add: ub_clamped_def float_le_refl float_total)

text \<open>A NaN upper bound is not raised (\<open>lb > nan\<close> is false) and nothing is below it.\<close>

lemma clamped_NaN: "ub_clamped lo NaN = NaN"
  by (cases lo) (simp_all add: ub_clamped_def float_gt_def)

lemma le_NaN: "\<not> float_le a NaN"
  by (cases a) (simp_all add: float_le_def)

lemma demand_bounds_stated:
  "demand_bounds entry = (lb_stated entry, ub_clamped (lb_stated entry) (ub_stated entry))"
proof (cases entry)
  case None
  then show ?thesis
    by (simp add: demand_bounds_def lb_stated_def ub_stated_def ub_clamped_def float_gt_def)
next
  case (Some c)
  have "float_gt l PosInf = False" for l
    by (cases l) (simp_all add: float_gt_def)
  then show ?thesis
    using Some
    by (simp add: demand_bounds_def lb_stated_def ub_stated_def ub_clamped_def Let_def
        split: nullable.splits)
qed

text \<open>With a NaN maximum the emitted upper bound is NaN, whatever the minimum.\<close>

lemma NaN_maximum_emitted:
  assumes "(pn, v) \<in> set (create_production_variables_with_demand pdict ddict)"
    and "ub_stated (map_of ddict pn) = NaN"
  shows "ub v = NaN \<and> \<not> float_le (lb v) (ub v)"
  using assms
  by (auto simp: create_production_variables_with_demand_def demand_bounds_stated
      clamped_NaN le_NaN)

lemma nan_request_valid:
  "validate_optimization_input (one_product_request ''maximize_profit'' (Some [nan_ceiling])) =
     Inr (True, [])"
  by code_simp

lemma nan_request_model:
  "map (\<lambda>(pn, v). (pn, lb v, ub v))
     (case demand_model (one_product_request ''maximize_profit'' (Some [nan_ceiling])) of
        Inl e \<Rightarrow> [] | Inr (m, rdict, table) \<Rightarrow> production_vars m) =
     [(''A'', Finite 2, NaN)]"
  by code_simp

text \<open>
  The claim C6 as the specification states it fails in its last part, "the emitted bounds
  always satisfy \<open>lb \<le> ub\<close>". The payload with
  \<open>demand_constraints: [{product_name: A, min_demand: 2, max_demand: NaN}]\<close> (\<open>json.loads\<close>
  reads \<open>NaN\<close>) passes the input validator, since \<open>nan < 0\<close> and \<open>2 > nan\<close> are both
  false; in the builder \<open>lb > ub\<close> is false as well, so the upper bound is not raised and
  the variable of \<open>A\<close> is created with \<open>lb = 2\<close> and \<open>ub = nan\<close>, for which \<open>lb \<le> ub\<close> is
  false.
\<close>

theorem demand_variable_bounds_counterexample:
  "validate_optimization_input (one_product_request ''maximize_profit'' (Some [nan_ceiling])) =
     Inr (True, []) \<and>
   map (\<lambda>(pn, v). (pn, lb v, ub v))
     (case demand_model (one_product_request ''maximize_profit'' (Some [nan_ceiling])) of
        Inl e \<Rightarrow> [] | Inr (m, rdict, table) \<Rightarrow> production_vars m) =
     [(''A'', Finite 2, NaN)] \<and>
   \<not> float_le (Finite 2) NaN"
  by (simp add: nan_request_valid nan_request_model le_NaN)

text \<open>
  Claim C6, amended. The demand-constrained builder creates one variable per product, in
  the order of the products. Its lower bound is \<open>max(0, min_demand)\<close> when the product's
  demand entry gives a minimum and 0 otherwise; its upper bound is \<open>max_demand\<close> when the
  entry gives a maximum and \<open>+infinity\<close> otherwise, raised to the lower bound when the
  lower bound is greater. The emitted bounds satisfy \<open>lb \<le> ub\<close> whenever the given
  maximum is not NaN; infinite minima and maxima are covered. (A key holding
  \<open>null\<close> counts as not given: the code tests \<open>is not None\<close>.)
\<close>

theorem demand_variable_bounds:
  "map fst (create_production_variables_with_demand pdict ddict) = map fst pdict \<and>
   (\<forall>(pn, v) \<in> set (create_production_variables_with_demand pdict ddict).
      lb v = lb_stated (map_of ddict pn) \<and>
      ub v = ub_clamped (lb_stated (map_of ddict pn)) (ub_stated (map_of ddict pn)) \<and>
      (ub_stated (map_of ddict pn) \<noteq> NaN \<longrightarrow> float_le (lb v) (ub v)))"
proof
  show "map fst (create_production_variables_with_demand pdict ddict) = map fst pdict"
    by (induction pdict)
       (auto simp: create_production_variables_with_demand_def demand_bounds_stated)
  show "\<forall>(pn, v) \<in> set (create_production_variables_with_demand pdict ddict).
      lb v = lb_stated (map_of ddict pn) \<and>
      ub v = ub_clamped (lb_stated (map_of ddict pn)) (ub_stated (map_of ddict pn)) \<and>
      (ub_stated (map_of ddict pn) \<noteq> NaN \<longrightarrow> float_le (lb v) (ub v))"
    by (auto simp: create_production_variables_with_demand_def demand_bounds_stated
        clamped_consistent lb_stated_not_NaN)
qed

text \<open>
  The witness: product \<open>A\<close> with \<open>min_demand = 10\<close> and \<open>max_demand = 5\<close> gets the bounds
  \<open>[10, 10]\<close>; product \<open>B\<close> without an entry gets \<open>[0, +infinity)\<close>.
\<close>

theorem demand_variable_bounds_witness:
  "create_production_variables_with_demand
     [(''A'', \<lparr>p_name = Some ''A'', profit_per_unit = Some 3, cost_per_unit = Some 1\<rparr>),
      (''B'', \<lparr>p_name = Some ''B'', profit_per_unit = Some 5, cost_per_unit = Some 2\<rparr>)]
     [(''A'', \<lparr>d_product_name = Some ''A'', min_demand = Val (Finite 10),
               max_demand = Val (Finite 5)\<rparr>)] =
     [(''A'', \<lparr>var_name = ''produce_A'', lb = Finite 10, ub = Finite 10\<rparr>),
      (''B'', \<lparr>var_name = ''produce_B'', lb = Finite 0, ub = PosInf\<rparr>)] \<and>
   lb_stated (Some \<lparr>d_product_name = Some ''A'', min_demand = Val (Finite 10),
                     max_demand = Val (Finite 5)\<rparr>) = Finite 10 \<and>
   ub_stated (Some \<lparr>d_product_name = Some ''A'', min_demand = Val (Finite 10),
                     max_demand = Val (Finite 5)\<rparr>) = Finite 5 \<and>
   Finite 5 \<noteq> NaN \<and> PosInf \<noteq> NaN \<and>
   float_le (Finite 10) (Finite 10) \<and> float_le (Finite 0) PosInf"
  using demand_variable_bounds
      [of "[(''A'', \<lparr>p_name = Some ''A'', profit_per_unit = Some 3, cost_per_unit = Some 1\<rparr>),
            (''B'', \<lparr>p_name = Some ''B'', profit_per_unit = Some 5, cost_per_unit = Some 2\<rparr>)]"
          "[(''A'', \<lparr>d_product_name = Some ''A'', min_demand = Val (Finite 10),
                      max_demand = Val (Finite 5)\<rparr>)]"]
  by (simp add: create_production_variables_with_demand_def demand_bounds_def lb_stated_def
      ub_stated_def ub_clamped_def float_le_def float_gt_def py_max_def Let_def)

lemma extract_ignores_demand:
  "extract_common_data (data\<lparr>demand_constraints := dcs\<rparr>) = extract_common_data data"
  by (simp add: extract_common_data_def cong: sum.case_cong)

lemma basic_model_ignores_demand:
  "basic_model (data\<lparr>demand_constraints := dcs\<rparr>) = basic_model data"
  by (simp add: basic_model_def extract_ignores_demand cong: sum.case_cong prod.case_cong)

lemma basic_model_vars:
  assumes "basic_model data = Inr (m, rdict, table)"
  shows "\<exists>pdict. production_vars m = create_production_variables pdict"
  using assms
  by (auto simp: basic_model_def assemble_model_def split: sum.splits prod.splits)

text \<open>
  Claim C8. The basic optimizer never reads \<open>demand_constraints\<close>: replacing them by any
  other value changes neither the model it hands to the engine nor what \<open>solve\<close> returns,
  and every production variable of that model has lower bound 0 and no upper bound.
\<close>

theorem basic_ignores_demand_constraints:
  "basic_model (data\<lparr>demand_constraints := dcs\<rparr>) = basic_model data \<and>
   solve float_add BasicProductionOptimizer engine (data\<lparr>demand_constraints := dcs\<rparr>) =
     solve float_add BasicProductionOptimizer engine data \<and>
   (\<forall>m rdict table. basic_model data = Inr (m, rdict, table) \<longrightarrow>
      (\<forall>(pn, v) \<in> set (production_vars m). lb v = Finite 0 \<and> ub v = PosInf))"
proof (intro conjI allI impI)
  show "basic_model (data\<lparr>demand_constraints := dcs\<rparr>) = basic_model data"
    by (rule basic_model_ignores_demand)
  show "solve float_add BasicProductionOptimizer engine (data\<lparr>demand_constraints := dcs\<rparr>) =
     solve float_add BasicProductionOptimizer engine data"
    by (simp add: basic_model_ignores_demand)
next
  fix m rdict table
  assume "basic_model data = Inr (m, rdict, table)"
  from basic_model_vars[OF this] obtain pdict where
    "production_vars m = create_production_variables pdict" ..
  then show "\<forall>(pn, v) \<in> set (production_vars m). lb v = Finite 0 \<and> ub v = PosInf"
    by (auto simp: create_production_variables_def)
qed

lemma floor_request_basic_model:
  "basic_model (one_product_request ''maximize_profit'' (floor_of 10)) =
     Inr (\<lparr>model_name = ''basic_production_optimization'', NumericFocus = 3,
            FeasibilityTol = 1 / 1000000,
            production_vars =
              [(''A'', \<lparr>var_name = ''produce_A'', lb = Finite 0, ub = PosInf\<rparr>)],
            objective_terms = [(3, ''A'')], objective_sense = MAXIMIZE,
            constrs = [\<lparr>lhs = [(1, ''A'')], csense = LessEqual, rhs = 100,
                        ConstrName = ''resource_R''\<rparr>]\<rparr>,
          [(''R'', \<lparr>r_name = Some ''R'', available_capacity = Some 100\<rparr>)],
          [(''A'', [(''R'', 1)])])"
  by code_simp

lemma with_floor:
  "(one_product_request obj None)\<lparr>demand_constraints := floor_of v\<rparr> =
     one_product_request obj (floor_of v)"
  by (simp add: one_product_request_def)

text \<open>
  The witness: with \<open>min_demand = 10\<close> on \<open>A\<close> in the payload, the basic optimizer builds
  the same model as without it, and the variable of \<open>A\<close> has the bounds \<open>[0, +infinity)\<close>.
\<close>

theorem basic_ignores_demand_constraints_witness:
  "basic_model (one_product_request ''maximize_profit'' (floor_of 10)) =
     basic_model (one_product_request ''maximize_profit'' None) \<and>
   map (\<lambda>(pn, v). (pn, lb v, ub v))
     (case basic_model (one_product_request ''maximize_profit'' (floor_of 10)) of
        Inl e \<Rightarrow> [] | Inr (m, rdict, table) \<Rightarrow> production_vars m) =
     [(''A'', Finite 0, PosInf)]"
proof -
  have same: "basic_model (one_product_request ''maximize_profit'' (floor_of 10)) =
      basic_model (one_product_request ''maximize_profit'' None)"
    using basic_ignores_demand_constraints
      [where data = "one_product_request ''maximize_profit'' None" and dcs = "floor_of 10"
         and engine = "engine_at 0" and float_add = "(+)"]
    by (simp only: with_floor)
  have vars: "map (\<lambda>(pn, v). (pn, lb v, ub v))
     (case basic_model (one_product_request ''maximize_profit'' (floor_of 10)) of
        Inl e \<Rightarrow> [] | Inr (m, rdict, table) \<Rightarrow> production_vars m) =
     [(''A'', Finite 0, PosInf)]"
    by (simp add: floor_request_basic_model)
  from same vars show ?thesis by (rule conjI)
qed

text \<open>
  The demand bound is seen only afterwards, by the verifier: with objective
  \<open>minimize_cost\<close> the basic model's optimum is \<open>x = 0\<close>, and the verifier reports the
  violated minimum of 10.
\<close>

lemma basic_demand_checked_afterwards:
  "fst (optimize float_add registered_optimizers (engine_at 0) ''basic''
         (one_product_request ''minimize_cost'' (floor_of 10))) =
     Inr \<lparr>status = ''solution_warning'', solver_message = ''Optimal solution found'',
          objective_value = Some 0,
          production_plan = Some [(''A'', 0)],
          resource_utilization =
            Some [(''R'', \<lparr>used = 0, available = 100, utilization_pct = 0\<rparr>)],
          total_production = Some (float_add 0 0),
          feasibility_warnings = Some [BelowMinDemand ''A'' 0 (Finite 10)],
          infeasible_constraints = None, validation_errors = None\<rparr>"
  by code_simp

section \<open>Verification: the result assembler\<close>

lemma flagged_by_index:
  "flagged_constraints sol cs =
     map (\<lambda>i. ConstrName (cs ! i)) (filter (IISConstr sol) [0..<length cs])"
proof -
  have "enumerate 0 cs = map (\<lambda>i. (i, cs ! i)) [0..<length cs]"
    by (rule nth_equalityI) (simp_all add: nth_enumerate_eq)
  then show ?thesis
    by (simp add: flagged_constraints_def filter_map comp_def)
qed

text \<open>
  Claim C5. When the engine reports infeasible, \<open>_prepare_result\<close> returns a result with
  status \<open>infeasible\<close> whose \<open>infeasible_constraints\<close> key is always present: it holds the
  names of exactly the constraints whose IIS flag is set, in model order, and the string
  \<open>"Unknown"\<close> when no flag is set.
\<close>

theorem infeasible_constraints_reported:
  assumes "grb_status sol = INFEASIBLE"
  shows "\<exists>r. prepare_result float_add m sol rdict table = Inr r \<and>
     status r = ''infeasible'' \<and>
     infeasible_constraints r =
       Some (let flagged = map (\<lambda>i. ConstrName (constrs m ! i))
                             (filter (IISConstr sol) [0..<length (constrs m)])
             in if flagged = [] then Unknown else Names flagged)"
  using assms
  by (simp add: prepare_result_def OPTIMAL_def INFEASIBLE_def plain_result_def
      flagged_by_index Let_def)

lemma infeasible_answer_status: "grb_status (infeasible_answer flags) = INFEASIBLE"
  by (simp add: infeasible_answer_def)

lemma two_flags_reported:
  "prepare_result float_add two_constraint_model (infeasible_answer (\<lambda>i. True)) [] [] =
     Inr ((plain_result ''infeasible'' ''The model is infeasible'')
            \<lparr>infeasible_constraints := Some (Names [''resource_R'', ''min_total_production''])\<rparr>)"
  by code_simp

lemma no_flag_reported:
  "prepare_result float_add two_constraint_model (infeasible_answer (\<lambda>i. False)) [] [] =
     Inr ((plain_result ''infeasible'' ''The model is infeasible'')
            \<lparr>infeasible_constraints := Some Unknown\<rparr>)"
  by code_simp

theorem infeasible_constraints_reported_witness:
  "grb_status (infeasible_answer (\<lambda>i. True)) = INFEASIBLE \<and>
   (\<exists>r. prepare_result (+) two_constraint_model (infeasible_answer (\<lambda>i. True)) [] [] =
          Inr r \<and>
        status r = ''infeasible'' \<and>
        infeasible_constraints r = Some (Names [''resource_R'', ''min_total_production''])) \<and>
   (\<exists>r. prepare_result (+) two_constraint_model (infeasible_answer (\<lambda>i. False)) [] [] =
          Inr r \<and>
        status r = ''infeasible'' \<and> infeasible_constraints r = Some Unknown)"
  using infeasible_constraints_reported
      [where sol = "infeasible_answer (\<lambda>i. True)" and m = two_constraint_model
         and rdict = "[]" and table = "[]" and float_add = "(+)", OF infeasible_answer_status]
    infeasible_constraints_reported
      [where sol = "infeasible_answer (\<lambda>i. False)" and m = two_constraint_model
         and rdict = "[]" and table = "[]" and float_add = "(+)", OF infeasible_answer_status]
  by (simp add: infeasible_answer_status two_flags_reported no_flag_reported plain_result_def)




















section \<open>Verification: the vehicle routing solver\<close>

text \<open>
  Claim C10. Whatever the instance and the values, a final status other than optimal
  (infeasible and unbounded included) makes \<open>solve\<close> return exactly
  \<open>{routes: [], total_distance: 0, status: 'No solution found'}\<close>; and a \<open>GurobiError\<close>
  with message \<open>m\<close> makes it return no routes, distance 0 and the status
  \<open>'Error: ' + m\<close>.
\<close>

theorem vrp_no_solution:
  "(st \<noteq> OPTIMAL \<longrightarrow>
      vrp_solve s (Optimized st x) =
        Some (Inr \<lparr>routes = [], total_distance = 0, vrp_status = ''No solution found''\<rparr>)) \<and>
   vrp_solve s (Raised (GurobiError m)) =
     Some (Inr \<lparr>routes = [], total_distance = 0, vrp_status = ''Error: '' @ m\<rparr>)"
  by (simp add: vrp_solve_def)

theorem vrp_no_solution_witness:
  "INFEASIBLE \<noteq> OPTIMAL \<and>
   vrp_solve triangle (Optimized INFEASIBLE triangle_arcs) =
     Some (Inr \<lparr>routes = [], total_distance = 0, vrp_status = ''No solution found''\<rparr>) \<and>
   vrp_solve triangle (Raised (GurobiError ''Model too large for size-limited license'')) =
     Some (Inr \<lparr>routes = [], total_distance = 0,
                 vrp_status = ''Error: Model too large for size-limited license''\<rparr>)"
  using vrp_no_solution [of INFEASIBLE triangle triangle_arcs
      "''Model too large for size-limited license''"]
  by (simp add: INFEASIBLE_def OPTIMAL_def)























end
